theory Spec2Isabelle
  imports Complex_Main "HOL-Library.Multiset"
begin

section \<open>Errors\<close>

text \<open>
  Python exceptions are values.  The constructors follow the taxonomy of the
  specification; where the code raises a builtin exception the constructor
  carries the builtin's name (\<open>IndexError\<close>, \<open>ValueError\<close>, \<open>TypeError\<close>,
  \<open>IOError\<close>).  A function that can raise returns \<open>error + 'a\<close>, with \<open>Inl\<close>
  for the exception.
\<close>

datatype error =
    NotFoundError
  | SchemaError string
  | IndexError
  | DomainError
  | ClosedError
  | ValueError
  | TypeError
  | IOError

section \<open>N-dimensional arrays\<close>

text \<open>
  The arrays of a netCDF file and of numpy: a number, or a sequence of arrays
  one axis shorter.  Floating-point numbers are modelled as reals; the
  properties below move values around, compare them and apply one division or
  one multiplication to each, so nothing depends on rounding.
\<close>

datatype 'a ndarray = Scalar 'a | Array "'a ndarray list"

text \<open>
  \<open>a[k1, ..., kn]\<close> with integer indices.  A negative index counts from the
  end of its axis; an index outside its axis, or an index applied to a number,
  raises \<open>IndexError\<close>.
\<close>

fun nd_index :: "'a ndarray \<Rightarrow> int list \<Rightarrow> error + 'a ndarray" where
  "nd_index a [] = Inr a"
| "nd_index (Scalar x) (k # ks) = Inl IndexError"
| "nd_index (Array xs) (k # ks) =
     (let n = int (length xs); k' = (if k < 0 then k + n else k)
      in if 0 \<le> k' \<and> k' < n then nd_index (xs ! nat k') ks else Inl IndexError)"

text \<open>
  \<open>a[k1, ..., kn, :]\<close>: the full slice of the next axis, which has to exist.
\<close>

definition nd_index_row :: "'a ndarray \<Rightarrow> int list \<Rightarrow> error + 'a ndarray" where
  "nd_index_row a ks =
     (case nd_index a ks of
        Inl e \<Rightarrow> Inl e
      | Inr (Scalar x) \<Rightarrow> Inl IndexError
      | Inr (Array xs) \<Rightarrow> Inr (Array xs))"

text \<open>\<open>len(a)\<close>: the length of the first axis; a number has none.\<close>

fun len :: "'a ndarray \<Rightarrow> error + nat" where
  "len (Scalar x) = Inl TypeError"
| "len (Array xs) = Inr (length xs)"

text \<open>The numbers of an array in storage order.\<close>

fun nd_elems :: "'a ndarray \<Rightarrow> 'a list" where
  "nd_elems (Scalar x) = [x]"
| "nd_elems (Array xs) = concat (map nd_elems xs)"

fun is_scalar :: "'a ndarray \<Rightarrow> bool" where
  "is_scalar (Scalar x) = True"
| "is_scalar (Array xs) = False"

text \<open>The number held by a zero-dimensional array, as a sort key needs it.\<close>

fun item :: "'a ndarray \<Rightarrow> error + 'a" where
  "item (Scalar x) = Inr x"
| "item (Array xs) = Inl TypeError"

text \<open>A one-dimensional array as a list; any other rank is refused.\<close>

fun nd_list1 :: "'a ndarray \<Rightarrow> error + 'a list" where
  "nd_list1 (Scalar x) = Inl ValueError"
| "nd_list1 (Array xs) =
     (if list_all is_scalar xs then Inr (concat (map nd_elems xs)) else Inl ValueError)"

definition vector :: "'a list \<Rightarrow> 'a ndarray" where
  "vector xs = Array (map Scalar xs)"

text \<open>
  \<open>has_shape [n1, ..., nk] a\<close>: the array has exactly \<open>k\<close> axes, of these
  sizes.  This is the invariant of the data model: the axis sizes of a stored
  array match the declared dimensions.
\<close>

fun has_shape :: "nat list \<Rightarrow> 'a ndarray \<Rightarrow> bool" where
  "has_shape [] (Scalar x) = True"
| "has_shape [] (Array xs) = False"
| "has_shape (n # ns) (Scalar x) = False"
| "has_shape (n # ns) (Array xs) = (length xs = n \<and> list_all (has_shape ns) xs)"

text \<open>
  The \<open>k\<close>-th sub-array along the first axis, by plain list access.  The
  properties of indexing are stated against it, inside the axis bounds.
\<close>

fun nd_child :: "'a ndarray \<Rightarrow> nat \<Rightarrow> 'a ndarray" where
  "nd_child (Array xs) k = xs ! k"
| "nd_child (Scalar x) k = Scalar x"

section \<open>Units and component labels (abipy.core.abinit_units)\<close>

text \<open>
  The module \<open>abipy.core.abinit_units\<close> is not part of the sources at hand.
  Its two conversion constants used here are parameters of the model:
  \<open>Ha_to_eV\<close>, the Hartree in electron-volt, and \<open>kb_HaK\<close>, the Boltzmann
  constant in Hartree per Kelvin.
\<close>

record abinit_units =
  Ha_to_eV :: real
  kb_HaK :: real

text \<open>
  Modelled from the spec: the table of axis letters used by \<open>abu.s2itup\<close>
  (module \<open>abipy.core.abinit_units\<close>, missing).  The spec maps \<open>x\<close> to 0
  and \<open>y\<close> to 1; \<open>z\<close>, the third Cartesian axis, is 2; any other character
  is an error.
\<close>

fun axis_index :: "char \<Rightarrow> error + nat" where
  "axis_index c =
     (if c = CHR ''x'' then Inr 0
      else if c = CHR ''y'' then Inr 1
      else if c = CHR ''z'' then Inr 2
      else Inl ValueError)"

text \<open>
  Modelled from the spec: \<open>abu.s2itup\<close> (module \<open>abipy.core.abinit_units\<close>)
  is missing.  A tensor component is a pair of axis indices derived from a
  two-character label, \<open>"xy"\<close> giving \<open>(0, 1)\<close>; any other label is an error.
\<close>

definition s2itup :: "string \<Rightarrow> error + nat \<times> nat" where
  "s2itup component =
     (case component of
        [a, b] \<Rightarrow>
          (case axis_index a of
             Inl e \<Rightarrow> Inl e
           | Inr i \<Rightarrow>
               (case axis_index b of
                  Inl e \<Rightarrow> Inl e
                | Inr j \<Rightarrow> Inr (i, j)))
      | _ \<Rightarrow> Inl ValueError)"

section \<open>The netCDF reader\<close>

text \<open>
  The content of a result file: named dimensions and named arrays.  A netCDF
  variable has a declared type; the double-precision arrays and the integer
  arrays (\<open>kptrlatt\<close>, \<open>edos_intmeth\<close>) are kept in two tables.
\<close>

record nc_file =
  dimensions :: "string \<rightharpoonup> nat"
  variables :: "string \<rightharpoonup> real ndarray"
  int_variables :: "string \<rightharpoonup> int ndarray"

text \<open>
  Modelled from the spec: the base reader (\<open>ElectronsReader\<close> and the ETSF
  reader under it) is missing; \<open>RtaReader\<close> inherits \<open>read_dimvalue\<close>,
  \<open>read_value\<close>, \<open>read_variable\<close> and \<open>close\<close> from it.  A reader holds
  the open file and is in one of two states, open or closed.
\<close>

record ETSF_Reader =
  rootgrp :: nc_file
  is_closed :: bool

text \<open>
  Modelled from the spec: the constructor of the missing base reader.  Opening
  a path that does not exist fails with \<open>NotFoundError\<close>; the file system is
  a table from paths to file contents.
\<close>

definition ETSF_Reader_init :: "(string \<rightharpoonup> nc_file) \<Rightarrow> string \<Rightarrow> error + ETSF_Reader" where
  "ETSF_Reader_init fs path =
     (case fs path of
        None \<Rightarrow> Inl NotFoundError
      | Some file \<Rightarrow> Inr \<lparr> rootgrp = file, is_closed = False \<rparr>)"

text \<open>
  Modelled from the spec: \<open>read_dimvalue\<close> of the missing base reader.  It
  fails with \<open>ClosedError\<close> on a closed reader and with \<open>SchemaError\<close> when
  the dimension is absent.
\<close>

definition read_dimvalue :: "'a ETSF_Reader_scheme \<Rightarrow> string \<Rightarrow> error + nat" where
  "read_dimvalue self name =
     (if is_closed self then Inl ClosedError
      else case dimensions (rootgrp self) name of
             None \<Rightarrow> Inl (SchemaError name)
           | Some n \<Rightarrow> Inr n)"

text \<open>
  Modelled from the spec: \<open>read_value\<close> of the missing base reader, for a
  double-precision array.  It fails with \<open>ClosedError\<close> on a closed reader
  and with \<open>SchemaError\<close> when the array is absent; the values are returned
  in the units of the file.
\<close>

definition read_value :: "'a ETSF_Reader_scheme \<Rightarrow> string \<Rightarrow> error + real ndarray" where
  "read_value self name =
     (if is_closed self then Inl ClosedError
      else case variables (rootgrp self) name of
             None \<Rightarrow> Inl (SchemaError name)
           | Some a \<Rightarrow> Inr a)"

text \<open>
  Modelled from the spec: \<open>read_value\<close> of the missing base reader, for an
  integer array.
\<close>

definition read_value_int :: "'a ETSF_Reader_scheme \<Rightarrow> string \<Rightarrow> error + int ndarray" where
  "read_value_int self name =
     (if is_closed self then Inl ClosedError
      else case int_variables (rootgrp self) name of
             None \<Rightarrow> Inl (SchemaError name)
           | Some a \<Rightarrow> Inr a)"

text \<open>
  Modelled from the spec: \<open>read_variable\<close> of the missing base reader.  The
  netCDF variable it returns is indexed at once by every caller, so it is
  represented by its content.
\<close>

definition read_variable :: "'a ETSF_Reader_scheme \<Rightarrow> string \<Rightarrow> error + real ndarray" where
  "read_variable self name =
     (if is_closed self then Inl ClosedError
      else case variables (rootgrp self) name of
             None \<Rightarrow> Inl (SchemaError name)
           | Some a \<Rightarrow> Inr a)"

text \<open>
  Modelled from the spec: \<open>close\<close> of the missing base reader, the one-way
  transition from open to closed.
\<close>

definition close :: "'a ETSF_Reader_scheme \<Rightarrow> 'a ETSF_Reader_scheme" where
  "close self = self\<lparr> is_closed := True \<rparr>"

section \<open>RtaReader (abipy/eph/rta.py)\<close>

text \<open>
  \<open>RtaReader.__init__\<close> opens the file, reads the dimension \<open>nsppol\<close> and
  stores \<open>tmesh = read_value("kTmesh") / abu.kb_HaK\<close> as an attribute of the
  reader object.
\<close>

record RtaReader = ETSF_Reader +
  nsppol :: nat
  tmesh :: "real ndarray"

definition RtaReader_init ::
  "abinit_units \<Rightarrow> (string \<rightharpoonup> nc_file) \<Rightarrow> string \<Rightarrow> error + RtaReader" where
  "RtaReader_init abu fs path =
     (case ETSF_Reader_init fs path of
        Inl e \<Rightarrow> Inl e
      | Inr base \<Rightarrow>
          (case read_dimvalue base ''nsppol'' of
             Inl e \<Rightarrow> Inl e
           | Inr ns \<Rightarrow>
               (case read_value base ''kTmesh'' of
                  Inl e \<Rightarrow> Inl e
                | Inr kTmesh \<Rightarrow>
                    Inr \<lparr> rootgrp = rootgrp base, is_closed = is_closed base, nsppol = ns,
                          tmesh = map_ndarray (\<lambda>x. x / kb_HaK abu) kTmesh \<rparr>)))"

text \<open>
  \<open>read_mobility(eh, itemp, component, spin, irta)\<close>: the label is decoded
  first, then the mesh is read as stored (the line that would convert it is
  commented out in the source), then the mobility array is indexed at
  \<open>[irta, spin, eh, itemp, j, i, :]\<close>.
\<close>

definition read_mobility ::
  "RtaReader \<Rightarrow> int \<Rightarrow> int \<Rightarrow> string \<Rightarrow> int \<Rightarrow> int \<Rightarrow>
   error + real ndarray \<times> real ndarray" where
  "read_mobility self eh itemp component spin irta =
     (case s2itup component of
        Inl e \<Rightarrow> Inl e
      | Inr (i, j) \<Rightarrow>
          (case read_variable self ''edos_mesh'' of
             Inl e \<Rightarrow> Inl e
           | Inr wvals \<Rightarrow>
               (case read_variable self ''mobility'' of
                  Inl e \<Rightarrow> Inl e
                | Inr var \<Rightarrow>
                    (case nd_index_row var [irta, spin, eh, itemp, int j, int i] of
                       Inl e \<Rightarrow> Inl e
                     | Inr mobility \<Rightarrow> Inr (wvals, mobility)))))"

section \<open>Interpolation (scipy.interpolate.interp1d)\<close>

text \<open>
  Modelled from the spec: \<open>interp1d\<close> belongs to SciPy and is missing.  The
  interpolant is piecewise linear over the mesh and fails with \<open>DomainError\<close>
  for a query outside the range of the mesh, without extrapolating; this is
  also what SciPy documents for the defaults used by the call
  (\<open>kind='linear'\<close>, bounds checked, sample points sorted by abscissa, both
  arguments of equal length and not empty).  The interpolant is the list of
  sample points in ascending order of abscissa.
\<close>

definition interp1d :: "real ndarray \<Rightarrow> real ndarray \<Rightarrow> error + (real \<times> real) list" where
  "interp1d x y =
     (case nd_list1 x of Inl e \<Rightarrow> Inl e | Inr xs \<Rightarrow>
      case nd_list1 y of Inl e \<Rightarrow> Inl e | Inr ys \<Rightarrow>
        if length xs \<noteq> length ys \<or> xs = [] then Inl ValueError
        else Inr (sort_key fst (zip xs ys)))"

text \<open>
  Modelled from the spec: the value that the interpolant of the missing
  \<open>interp1d\<close> takes at \<open>x\<close>, for \<open>x\<close> inside the range of the mesh.  It is
  piecewise linear: on the segment from \<open>(x0, y0)\<close> to \<open>(x1, y1)\<close> with \<open>x0 \<le> x < x1\<close>,
  and the last ordinate at the last abscissa.
\<close>

fun linear_interp :: "(real \<times> real) list \<Rightarrow> real \<Rightarrow> real" where
  "linear_interp [] x = 0"
| "linear_interp [(x0, y0)] x = y0"
| "linear_interp ((x0, y0) # (x1, y1) # ps) x =
     (if x < x1 then y0 + (y1 - y0) / (x1 - x0) * (x - x0)
      else linear_interp ((x1, y1) # ps) x)"

text \<open>
  Modelled from the spec: calling the interpolant of the missing \<open>interp1d\<close>
  on an array of query points.  Every point is checked against the first and
  the last abscissa and the call fails with \<open>DomainError\<close> if one lies
  outside; otherwise every point is interpolated.
\<close>

definition interp1d_call :: "(real \<times> real) list \<Rightarrow> real ndarray \<Rightarrow> error + real ndarray" where
  "interp1d_call f x_new =
     (case f of
        [] \<Rightarrow> Inl ValueError
      | p # ps \<Rightarrow>
          if list_ex (\<lambda>x. x < fst (hd f) \<or> fst (last f) < x) (nd_elems x_new)
          then Inl DomainError
          else Inr (map_ndarray (linear_interp f) x_new))"

section \<open>RtaFile (abipy/eph/rta.py)\<close>

text \<open>
  \<open>RtaFile.__init__\<close> builds the reader and copies into attributes of the
  object the dimension \<open>nrta\<close>, the band edges, the metadata of the energy
  integration and the energy mesh, the energies converted to eV.
\<close>

record RtaFile =
  filepath :: string
  reader :: RtaReader
  nrta :: nat
  vb_max_spin :: "real ndarray"
  cb_min_spin :: "real ndarray"
  edos_intmeth :: "int ndarray"
  edos_broad_eV :: "real ndarray"
  edos_mesh_eV :: "real ndarray"

definition RtaFile_init ::
  "abinit_units \<Rightarrow> (string \<rightharpoonup> nc_file) \<Rightarrow> string \<Rightarrow> error + RtaFile" where
  "RtaFile_init abu fs path =
     (case RtaReader_init abu fs path of Inl e \<Rightarrow> Inl e | Inr rd \<Rightarrow>
      case read_dimvalue rd ''nrta'' of Inl e \<Rightarrow> Inl e | Inr n \<Rightarrow>
      case read_value rd ''vb_max'' of Inl e \<Rightarrow> Inl e | Inr vb \<Rightarrow>
      case read_value rd ''cb_min'' of Inl e \<Rightarrow> Inl e | Inr cb \<Rightarrow>
      case read_value_int rd ''edos_intmeth'' of Inl e \<Rightarrow> Inl e | Inr meth \<Rightarrow>
      case read_value rd ''edos_broad'' of Inl e \<Rightarrow> Inl e | Inr broad \<Rightarrow>
      case read_value rd ''edos_mesh'' of Inl e \<Rightarrow> Inl e | Inr mesh \<Rightarrow>
        Inr \<lparr> filepath = path, reader = rd, nrta = n,
              vb_max_spin = map_ndarray (\<lambda>x. x * Ha_to_eV abu) vb,
              cb_min_spin = map_ndarray (\<lambda>x. x * Ha_to_eV abu) cb,
              edos_intmeth = meth,
              edos_broad_eV = map_ndarray (\<lambda>x. x * Ha_to_eV abu) broad,
              edos_mesh_eV = map_ndarray (\<lambda>x. x * Ha_to_eV abu) mesh \<rparr>)"

text \<open>The properties \<open>tmesh\<close> and \<open>ntemp\<close>, and \<open>close\<close>.\<close>

definition RtaFile_tmesh :: "RtaFile \<Rightarrow> real ndarray" where
  "RtaFile_tmesh self = tmesh (reader self)"

definition RtaFile_ntemp :: "RtaFile \<Rightarrow> error + nat" where
  "RtaFile_ntemp self = len (RtaFile_tmesh self)"

definition RtaFile_close :: "RtaFile \<Rightarrow> RtaFile" where
  "RtaFile_close self = self\<lparr> reader := close (reader self) \<rparr>"

text \<open>
  \<open>get_mobility_mu(eh, itemp, component, ef, irta, spin)\<close>.  With \<open>ef\<close>
  omitted the query point is \<open>read_value('transport_mu_e')[itemp]\<close>, read
  before the mobility; the result is the array that the interpolant returns
  for the query.
\<close>

definition get_mobility_mu ::
  "RtaFile \<Rightarrow> int \<Rightarrow> int \<Rightarrow> string \<Rightarrow> real option \<Rightarrow> int \<Rightarrow> int \<Rightarrow> error + real ndarray" where
  "get_mobility_mu self eh itemp component ef irta spin =
     (case (case ef of
              None \<Rightarrow>
                (case read_value (reader self) ''transport_mu_e'' of
                   Inl e \<Rightarrow> Inl e
                 | Inr mu_e \<Rightarrow> nd_index mu_e [itemp])
            | Some v \<Rightarrow> Inr (Scalar v)) of
        Inl e \<Rightarrow> Inl e
      | Inr ef' \<Rightarrow>
          (case read_mobility (reader self) eh itemp component spin irta of
             Inl e \<Rightarrow> Inl e
           | Inr (emesh, mobility) \<Rightarrow>
               (case interp1d emesh mobility of
                  Inl e \<Rightarrow> Inl e
                | Inr f \<Rightarrow> interp1d_call f ef')))"

section \<open>RtaRobot (abipy/eph/rta.py)\<close>

text \<open>
  One round of the loop of \<open>plot_mobility_conv\<close>: the diagonal of
  \<open>kptrlatt\<close> and the entry \<open>[irta, spin, itemp, j, i, eh]\<close> of
  \<open>mobility_mu\<close>, paired as \<open>[kptrlattx, mobility]\<close>.  In the file format
  \<open>kptrlatt\<close> is a 3 by 3 matrix, so \<open>kptrlattx\<close> is a number; an array
  left over there cannot be ordered as a sort key and is an error here.
\<close>

definition mobility_conv_entry ::
  "RtaFile \<Rightarrow> nat \<times> nat \<Rightarrow> int \<Rightarrow> int \<Rightarrow> int \<Rightarrow> int \<Rightarrow> error + int \<times> real ndarray" where
  "mobility_conv_entry ncfile ij eh itemp spin irta =
     (case read_value_int (reader ncfile) ''kptrlatt'' of Inl e \<Rightarrow> Inl e | Inr kptrlatt \<Rightarrow>
      case nd_index kptrlatt [0, 0] of Inl e \<Rightarrow> Inl e | Inr kptrlattx \<Rightarrow>
      case nd_index kptrlatt [1, 1] of Inl e \<Rightarrow> Inl e | Inr kptrlatty \<Rightarrow>
      case nd_index kptrlatt [2, 2] of Inl e \<Rightarrow> Inl e | Inr kptrlattz \<Rightarrow>
      case read_variable (reader ncfile) ''mobility_mu'' of Inl e \<Rightarrow> Inl e | Inr var \<Rightarrow>
      case nd_index var [irta, spin, itemp, int (snd ij), int (fst ij), eh] of
        Inl e \<Rightarrow> Inl e
      | Inr mobility \<Rightarrow>
          (case item kptrlattx of Inl e \<Rightarrow> Inl e | Inr key \<Rightarrow> Inr (key, mobility)))"

text \<open>The loop over \<open>self.abifiles\<close>, appending to \<open>res\<close> in order.\<close>

fun mobility_conv_loop ::
  "RtaFile list \<Rightarrow> nat \<times> nat \<Rightarrow> int \<Rightarrow> int \<Rightarrow> int \<Rightarrow> int \<Rightarrow>
   error + (int \<times> real ndarray) list" where
  "mobility_conv_loop [] ij eh itemp spin irta = Inr []"
| "mobility_conv_loop (ncfile # rest) ij eh itemp spin irta =
     (case mobility_conv_entry ncfile ij eh itemp spin irta of
        Inl e \<Rightarrow> Inl e
      | Inr entry \<Rightarrow>
          (case mobility_conv_loop rest ij eh itemp spin irta of
             Inl e \<Rightarrow> Inl e
           | Inr res \<Rightarrow> Inr (entry # res)))"

text \<open>
  The list \<open>res\<close> of \<open>plot_mobility_conv\<close> after \<open>res.sort(key=lambda t: t[0])\<close>;
  \<open>irta\<close> is fixed to 0 there.  Python's \<open>list.sort\<close> is a stable ascending
  sort; so is \<open>sort_key\<close>, and a list has only one stable ascending
  rearrangement, whatever algorithm finds it.
\<close>

definition plot_mobility_conv_res ::
  "RtaFile list \<Rightarrow> int \<Rightarrow> string \<Rightarrow> int \<Rightarrow> int \<Rightarrow> error + (int \<times> real ndarray) list" where
  "plot_mobility_conv_res abifiles eh component itemp spin =
     (case s2itup component of
        Inl e \<Rightarrow> Inl e
      | Inr ij \<Rightarrow>
          (case mobility_conv_loop abifiles ij eh itemp spin 0 of
             Inl e \<Rightarrow> Inl e
           | Inr res \<Rightarrow> Inr (sort_key fst res)))"

section \<open>The benchmark options (abipy/benchmarks/__init__.py)\<close>

text \<open>
  The namespace built by the argument parser of \<open>bench_main\<close>.  Both CPU
  bounds are declared with \<open>type=int\<close> (defaults \<open>-1\<close> and \<open>206\<close>);
  \<open>accept_mpi_omp\<close> nevertheless tests \<open>max_ncpus\<close> against \<open>None\<close>, so
  the field is optional here.  Python integers are unbounded.
\<close>

record options =
  loglevel :: string
  verbose :: nat
  workdir :: string
  min_ncpus :: int
  max_ncpus :: "int option"
  paw :: bool
  info :: bool
  remove :: bool
  scheduler :: bool

text \<open>What \<open>cprint\<close> writes: the message names \<open>mpi_procs\<close> and the bound.\<close>

datatype skip_message =
    Skipping_because_of_min_ncpus int
  | Skipping_because_of_max_ncpus int

text \<open>
  \<open>accept_mpi_omp(opts, mpi_procs, omp_threads)\<close>: the printed messages and
  the returned boolean.
\<close>

definition accept_mpi_omp :: "options \<Rightarrow> int \<Rightarrow> int \<Rightarrow> skip_message list \<times> bool" where
  "accept_mpi_omp opts mpi_procs omp_threads =
     (let tot_ncpus = mpi_procs * omp_threads in
      if tot_ncpus < min_ncpus opts then
        ([Skipping_because_of_min_ncpus mpi_procs], False)
      else if max_ncpus opts \<noteq> None \<and> tot_ncpus > the (max_ncpus opts) then
        ([Skipping_because_of_max_ncpus mpi_procs], False)
      else ([], True))"

section \<open>The variable database of the lessons (abipy/lessons/lesson_helper_functions.py)\<close>

text \<open>
  An ABINIT variable as \<open>load_vars\<close> uses it: only \<open>varname\<close> is read there;
  the other attributes are kept abstract.
\<close>

record 'a abinit_var =
  varname :: string
  payload :: 'a

text \<open>
  A \<open>VariableDatabase\<close> object.  Python objects have an identity; \<open>obj_id\<close>
  is the allocation number of the object, so that two objects with equal
  contents are still told apart.
\<close>

record 'a VariableDatabase =
  obj_id :: nat
  all_vars :: "string \<rightharpoonup> 'a abinit_var"

text \<open>
  \<open>load_vars\<close>: opening and parsing \<open>abinit_vars.yml\<close> either raises or gives
  the list of variables; the list is then entered into a dictionary in order,
  a later entry of the same name replacing an earlier one.
\<close>

definition load_vars :: "'a abinit_var list \<Rightarrow> (string \<rightharpoonup> 'a abinit_var)" where
  "load_vars vars = foldl (\<lambda>d var. d(varname var \<mapsto> var)) Map.empty vars"

text \<open>
  The module state: the global \<open>__VARS_DATABASE\<close> (\<open>None\<close> at import) and
  the number of \<open>VariableDatabase\<close> objects allocated so far.
\<close>

record 'a lessons_module =
  VARS_DATABASE :: "'a VariableDatabase option"
  allocated :: nat

definition lessons_import :: "'a lessons_module" where
  "lessons_import = \<lparr> VARS_DATABASE = None, allocated = 0 \<rparr>"

text \<open>
  \<open>VariableDatabase()\<close>: the first argument is what reading the YAML file gives
  at the time of the call.  A constructor that raises leaves no object behind.
\<close>

definition VariableDatabase_init ::
  "error + 'a abinit_var list \<Rightarrow> 'a lessons_module \<Rightarrow>
   (error + 'a VariableDatabase) \<times> 'a lessons_module" where
  "VariableDatabase_init yml m =
     (case yml of
        Inl e \<Rightarrow> (Inl e, m)
      | Inr vars \<Rightarrow>
          (Inr \<lparr> obj_id = allocated m, all_vars = load_vars vars \<rparr>,
           m\<lparr> allocated := Suc (allocated m) \<rparr>))"

definition get_abinit_variables ::
  "error + 'a abinit_var list \<Rightarrow> 'a lessons_module \<Rightarrow>
   (error + 'a VariableDatabase) \<times> 'a lessons_module" where
  "get_abinit_variables yml m =
     (case VARS_DATABASE m of
        None \<Rightarrow>
          (case VariableDatabase_init yml m of
             (Inl e, m') \<Rightarrow> (Inl e, m')
           | (Inr db, m') \<Rightarrow> (Inr db, m'\<lparr> VARS_DATABASE := Some db \<rparr>))
      | Some db \<Rightarrow> (Inr db, m))"

text \<open>
  A run of calls, each with its own view of the YAML file: the results in
  order and the final module state.
\<close>

fun get_abinit_variables_calls ::
  "(error + 'a abinit_var list) list \<Rightarrow> 'a lessons_module \<Rightarrow>
   (error + 'a VariableDatabase) list \<times> 'a lessons_module" where
  "get_abinit_variables_calls [] m = ([], m)"
| "get_abinit_variables_calls (yml # ymls) m =
     (case get_abinit_variables yml m of
        (r, m') \<Rightarrow>
          (case get_abinit_variables_calls ymls m' of
             (rs, m'') \<Rightarrow> (r # rs, m'')))"

section \<open>Example data\<close>

text \<open>
  A small result file with \<open>nrta = 2\<close>, one spin, three temperatures (100,
  200 and 300 K) and three mesh points.  Every stored number of the two
  mobility arrays spells its own index in decimal digits, so that the entry
  at \<open>[0, 0, 0, 1, 0, 0, 2]\<close> is 1002.
\<close>

fun tabulate :: "nat list \<Rightarrow> (nat list \<Rightarrow> 'a) \<Rightarrow> 'a ndarray" where
  "tabulate [] f = Scalar (f [])"
| "tabulate (n # ns) f = Array (map (\<lambda>k. tabulate ns (\<lambda>ks. f (k # ks))) [0..<n])"

definition index_code :: "nat list \<Rightarrow> real" where
  "index_code ks = real (foldl (\<lambda>a k. 10 * a + k) 0 ks)"

definition example_units :: abinit_units where
  "example_units = \<lparr> Ha_to_eV = 27211386 / 1000000, kb_HaK = 3166811563 / 10 ^ 15 \<rparr>"

definition example_nc :: nc_file where
  "example_nc =
     \<lparr> dimensions = [''nrta'' \<mapsto> 2, ''nsppol'' \<mapsto> 1, ''ntemp'' \<mapsto> 3, ''edos_nw'' \<mapsto> 3],
       variables =
         [''kTmesh'' \<mapsto> vector [100 * kb_HaK example_units, 200 * kb_HaK example_units,
                                  300 * kb_HaK example_units],
          ''edos_mesh'' \<mapsto> vector [0, 1 / 2, 1],
          ''mobility'' \<mapsto> tabulate [2, 1, 2, 3, 3, 3, 3] index_code,
          ''mobility_mu'' \<mapsto> tabulate [2, 1, 3, 3, 3, 2] index_code,
          ''transport_mu_e'' \<mapsto> vector [1 / 4, 1 / 2, 3 / 4],
          ''vb_max'' \<mapsto> vector [1 / 4],
          ''cb_min'' \<mapsto> vector [3 / 4],
          ''edos_broad'' \<mapsto> Scalar (1 / 1000)],
       int_variables =
         [''edos_intmeth'' \<mapsto> Scalar 2,
          ''kptrlatt'' \<mapsto> Array [vector [8, 0, 0], vector [0, 8, 0], vector [0, 0, 8]]] \<rparr>"

definition example_fs :: "string \<rightharpoonup> nc_file" where
  "example_fs = [''out_RTA.nc'' \<mapsto> example_nc]"

definition example_reader :: RtaReader where
  "example_reader =
     \<lparr> rootgrp = example_nc, is_closed = False, nsppol = 1, tmesh = vector [100, 200, 300] \<rparr>"

definition example_file :: RtaFile where
  "example_file =
     \<lparr> filepath = ''out_RTA.nc'', reader = example_reader, nrta = 2,
       vb_max_spin = vector [27211386 / 4000000],
       cb_min_spin = vector [3 * 27211386 / 4000000],
       edos_intmeth = Scalar 2,
       edos_broad_eV = Scalar (27211386 / 1000000000),
       edos_mesh_eV = vector [0, 27211386 / 2000000, 27211386 / 1000000] \<rparr>"

text \<open>
  A member of a convergence study: the example file with \<open>k\<close> on the
  diagonal of \<open>kptrlatt\<close> and every entry of \<open>mobility_mu\<close> shifted by \<open>c\<close>.
\<close>

definition convergence_file :: "int \<Rightarrow> real \<Rightarrow> RtaFile" where
  "convergence_file k c =
     example_file\<lparr> reader := example_reader\<lparr> rootgrp := example_nc
       \<lparr> variables := (variables example_nc)
            (''mobility_mu'' \<mapsto> tabulate [2, 1, 3, 3, 3, 2] (\<lambda>ks. index_code ks + c)),
         int_variables := (int_variables example_nc)
            (''kptrlatt'' \<mapsto> Array [vector [k, 0, 0], vector [0, k, 0], vector [0, 0, k]]) \<rparr>\<rparr>\<rparr>"

text \<open>The defaults of the argument parser.\<close>

definition default_options :: options where
  "default_options =
     \<lparr> loglevel = ''ERROR'', verbose = 0, workdir = [], min_ncpus = - 1,
       max_ncpus = Some 206, paw = False, info = False, remove = False,
       scheduler = False \<rparr>"

text \<open>A one-variable database, and the module after the call that built it.\<close>

definition example_var :: "unit abinit_var" where
  "example_var = \<lparr> varname = ''ecut'', payload = () \<rparr>"

definition example_db :: "unit VariableDatabase" where
  "example_db = \<lparr> obj_id = 0, all_vars = load_vars [example_var] \<rparr>"

definition example_module :: "unit lessons_module" where
  "example_module = \<lparr> VARS_DATABASE = Some example_db, allocated = 1 \<rparr>"

section \<open>Arrays: indexing inside a declared shape\<close>

lemma nd_index_step:
  assumes "has_shape (n # ns) a" "0 \<le> k" "k < int n"
  shows "nd_index a (k # ks) = nd_index (nd_child a (nat k)) ks"
    and "has_shape ns (nd_child a (nat k))"
  using assms by (cases a; auto simp: list_all_length Let_def)+

lemma has_shape_row:
  assumes "has_shape [n] a"
  shows "nd_list1 a = Inr (nd_elems a)" and "length (nd_elems a) = n" and "len a = Inr n"
    and "a = vector (nd_elems a)"
proof -
  obtain xs where a: "a = Array xs" using assms by (cases a) auto
  have sc: "\<forall>x\<in>set xs. \<exists>v. x = Scalar v"
  proof
    fix x assume "x \<in> set xs"
    then have "has_shape [] x" using assms a by (auto simp: list_all_iff)
    then show "\<exists>v. x = Scalar v" by (cases x) auto
  qed
  then have all: "list_all is_scalar xs" by (auto simp: list_all_iff)
  have len1: "length (concat (map nd_elems xs)) = length xs"
    using sc by (induction xs) auto
  show "nd_list1 a = Inr (nd_elems a)" using a all by simp
  show "length (nd_elems a) = n" using a len1 assms by simp
  show "len a = Inr n" using a assms by simp
  have "map Scalar (concat (map nd_elems xs)) = xs"
    using sc by (induction xs) auto
  then show "a = vector (nd_elems a)" using a by (simp add: vector_def)
qed

lemma nd_elems_map: "nd_elems (map_ndarray g a) = map g (nd_elems a)"
  by (induction a) (auto simp: map_concat intro!: arg_cong [where f = concat])

lemma len_map: "len (map_ndarray g a) = len a"
  by (cases a) auto

lemma s2itup_bounds:
  assumes "s2itup component = Inr (i, j)"
  shows "i < 3 \<and> j < 3"
  using assms
  by (auto simp: s2itup_def split: list.splits sum.splits if_splits)

section \<open>Reading a mobility slice\<close>

lemma read_mobility_wf:
  assumes op: "\<not> is_closed self"
    and mesh: "variables (rootgrp self) ''edos_mesh'' = Some wvals"
    and mob: "variables (rootgrp self) ''mobility'' = Some var"
    and shape: "has_shape [n_rta, n_sppol, 2, n_temp, 3, 3, nw] var"
    and comp: "s2itup component = Inr (i, j)"
    and idx: "0 \<le> irta" "irta < int n_rta" "0 \<le> spin" "spin < int n_sppol"
      "eh = 0 \<or> eh = 1" "0 \<le> itemp" "itemp < int n_temp"
  shows "read_mobility self eh itemp component spin irta =
           Inr (wvals, foldl nd_child var [nat irta, nat spin, nat eh, nat itemp, j, i])"
    and "has_shape [nw] (foldl nd_child var [nat irta, nat spin, nat eh, nat itemp, j, i])"
proof -
  have ij: "i < 3" "j < 3" using s2itup_bounds [OF comp] by auto
  have eh: "0 \<le> eh" "eh < int 2" using idx(5) by auto
  let ?a1 = "nd_child var (nat irta)"
  let ?a2 = "nd_child ?a1 (nat spin)"
  let ?a3 = "nd_child ?a2 (nat eh)"
  let ?a4 = "nd_child ?a3 (nat itemp)"
  let ?a5 = "nd_child ?a4 j"
  let ?a6 = "nd_child ?a5 i"
  note s1 = nd_index_step [OF shape idx(1) idx(2)]
  note s2 = nd_index_step [OF s1(2) idx(3) idx(4)]
  note s3 = nd_index_step [OF s2(2) eh]
  note s4 = nd_index_step [OF s3(2) idx(6) idx(7)]
  have j': "0 \<le> int j" "int j < int 3" using ij by auto
  have i': "0 \<le> int i" "int i < int 3" using ij by auto
  note s5 = nd_index_step [OF s4(2) j']
  note s6 = nd_index_step [OF s5(2) i']
  have ix: "nd_index var [irta, spin, eh, itemp, int j, int i] = Inr ?a6"
    using s1(1) s2(1) s3(1) s4(1) s5(1) s6(1) by simp
  have sh: "has_shape [nw] ?a6" using s6(2) by simp
  then obtain xs where xs: "?a6 = Array xs" by (cases ?a6) auto
  have "nd_index_row var [irta, spin, eh, itemp, int j, int i] = Inr ?a6"
    unfolding nd_index_row_def ix using xs by simp
  then show "read_mobility self eh itemp component spin irta =
           Inr (wvals, foldl nd_child var [nat irta, nat spin, nat eh, nat itemp, j, i])"
    using op mesh mob comp by (simp add: read_mobility_def read_variable_def)
  show "has_shape [nw] (foldl nd_child var [nat irta, nat spin, nat eh, nat itemp, j, i])"
    using sh by simp
qed

section \<open>The interpolant\<close>

lemma sorted_hd_Min_set:
  "sorted xs \<Longrightarrow> xs \<noteq> [] \<Longrightarrow> hd xs = Min (set xs)"
  by (cases xs) (auto intro!: Min_eqI [symmetric])

lemma sorted_last_Max_set:
  "sorted xs \<Longrightarrow> xs \<noteq> [] \<Longrightarrow> last xs = Max (set xs)"
proof (induction xs)
  case Nil
  then show ?case by simp
next
  case (Cons a xs)
  show ?case
  proof (cases "xs = []")
    case True
    then show ?thesis by simp
  next
    case False
    then have l: "last xs = Max (set xs)" using Cons by simp
    have "a \<le> last xs" using Cons.prems False by auto
    then show ?thesis using False l by (simp add: max_def)
  qed
qed

lemma linear_interp_at_sample:
  assumes "sorted (map fst ps)" "distinct (map fst ps)" "(x, y) \<in> set ps"
  shows "linear_interp ps x = y"
  using assms
proof (induction ps x rule: linear_interp.induct)
  case (1 x)
  then show ?case by simp
next
  case (2 x0 y0 x)
  then show ?case by simp
next
  case (3 x0 y0 x1 y1 ps x)
  show ?case
  proof (cases "(x, y) = (x0, y0)")
    case True
    have "x0 < x1" using "3.prems"(1,2) by (auto simp: less_le)
    then show ?thesis using True by simp
  next
    case False
    then have mem: "(x, y) \<in> set ((x1, y1) # ps)" using "3.prems"(3) by auto
    then have "x1 \<le> x" using "3.prems"(1) by force
    then have nl: "\<not> x < x1" by simp
    have "linear_interp ((x1, y1) # ps) x = y"
      using "3.IH" [OF nl] "3.prems"(1,2) mem by simp
    then show ?thesis using nl by simp
  qed
qed

lemma interp1d_rows:
  assumes "has_shape [n] x" "has_shape [n] y" "0 < n"
  shows "interp1d x y = Inr (sort_key fst (zip (nd_elems x) (nd_elems y)))"
  using has_shape_row(1,2) [OF assms(1)] has_shape_row(1,2) [OF assms(2)] assms(3)
  by (auto simp: interp1d_def)

lemma sorted_points:
  fixes xs :: "real list"
  assumes "length xs = length ys" "xs \<noteq> []"
  defines "f \<equiv> sort_key fst (zip xs ys)"
  shows "f \<noteq> []" and "fst (hd f) = Min (set xs)" and "fst (last f) = Max (set xs)"
proof -
  have ne: "f \<noteq> []" using assms by (cases xs; cases ys) (auto simp: f_def)
  have s: "sorted (map fst f)" by (simp add: f_def)
  have "set (map fst f) = set (map fst (zip xs ys))" by (simp add: f_def)
  then have st: "set (map fst f) = set xs"
    using assms(1) by (simp only: map_fst_zip)
  show "f \<noteq> []" by (rule ne)
  have "hd (map fst f) = Min (set (map fst f))"
    using s ne by (intro sorted_hd_Min_set) auto
  then show "fst (hd f) = Min (set xs)" using ne st by (simp add: hd_map)
  have "last (map fst f) = Max (set (map fst f))"
    using s ne by (intro sorted_last_Max_set) auto
  then show "fst (last f) = Max (set xs)" using ne st by (simp add: last_map)
qed

lemma interp1d_call_scalar:
  fixes xs :: "real list"
  assumes "length xs = length ys" "xs \<noteq> []"
  shows "interp1d_call (sort_key fst (zip xs ys)) (Scalar q) =
           (if q < Min (set xs) \<or> Max (set xs) < q then Inl DomainError
            else Inr (Scalar (linear_interp (sort_key fst (zip xs ys)) q)))"
  using sorted_points [OF assms]
  by (cases "sort_key fst (zip xs ys)") (auto simp: interp1d_call_def)

section \<open>The query point of the mobility at a potential\<close>

lemma get_mobility_mu_Some:
  "get_mobility_mu self eh itemp component (Some ef) irta spin =
     (case read_mobility (reader self) eh itemp component spin irta of
        Inl e \<Rightarrow> Inl e
      | Inr (emesh, mobility) \<Rightarrow>
          (case interp1d emesh mobility of
             Inl e \<Rightarrow> Inl e
           | Inr f \<Rightarrow> interp1d_call f (Scalar ef)))"
  by (simp add: get_mobility_mu_def)

lemma get_mobility_mu_None:
  assumes "\<not> is_closed (reader self)"
    and "variables (rootgrp (reader self)) ''transport_mu_e'' = Some mu_e"
    and "has_shape [n_temp] mu_e" "0 \<le> itemp" "itemp < int n_temp"
  shows "get_mobility_mu self eh itemp component None irta spin =
         get_mobility_mu self eh itemp component (Some (nd_elems mu_e ! nat itemp)) irta spin"
proof -
  have v: "mu_e = vector (nd_elems mu_e)" and l: "length (nd_elems mu_e) = n_temp"
    using has_shape_row [OF assms(3)] by auto
  have "nd_index (vector (nd_elems mu_e)) [itemp] = Inr (Scalar (nd_elems mu_e ! nat itemp))"
    using assms(4,5) l by (simp add: vector_def Let_def)
  then have "nd_index mu_e [itemp] = Inr (Scalar (nd_elems mu_e ! nat itemp))"
    using v by simp
  then show ?thesis
    using assms(1,2) by (simp add: get_mobility_mu_def read_value_def)
qed

section \<open>Facts about the example data\<close>

lemma upt_3: "[0..<3] = [0, 1, 2 :: nat]"
  by code_simp

lemma upt_2: "[0..<2] = [0, 1 :: nat]"
  by code_simp

lemma has_shape_tabulate: "has_shape ns (tabulate ns f)"
  by (induction ns arbitrary: f) (auto simp: list_all_iff)

lemma has_shape_vector: "has_shape [length xs] (vector xs)"
  by (simp add: vector_def list_all_iff)

lemma nd_elems_vector: "nd_elems (vector xs) = xs"
  by (induction xs) (simp_all add: vector_def)

lemma example_open: "\<not> is_closed example_reader"
  by (simp add: example_reader_def)

lemma example_edos_mesh:
  "variables (rootgrp example_reader) ''edos_mesh'' = Some (vector [0, 1 / 2, 1])"
  by (simp add: example_reader_def example_nc_def)

lemma example_mobility:
  "variables (rootgrp example_reader) ''mobility'' =
     Some (tabulate [2, 1, 2, 3, 3, 3, 3] index_code)"
  by (simp add: example_reader_def example_nc_def)

lemma example_transport_mu_e:
  "variables (rootgrp example_reader) ''transport_mu_e'' = Some (vector [1 / 4, 1 / 2, 3 / 4])"
  by (simp add: example_reader_def example_nc_def)

lemma example_mesh_shape: "has_shape [3] (vector [0, 1 / 2, 1 :: real])"
  by (simp add: vector_def)

lemma example_mu_e_shape: "has_shape [3] (vector [1 / 4, 1 / 2, 3 / 4 :: real])"
  by (simp add: vector_def)

lemma example_xx: "s2itup ''xx'' = Inr (0, 0)"
  by (simp add: s2itup_def)

lemma example_slice:
  "foldl nd_child (tabulate [2, 1, 2, 3, 3, 3, 3] index_code)
     [nat 0, nat 0, nat 0, nat 1, 0, 0] = vector [1000, 1001, 1002]"
  by (simp add: upt_2 upt_3 vector_def index_code_def)

lemma example_reader_init:
  "RtaReader_init example_units example_fs ''out_RTA.nc'' = Inr example_reader"
  by (simp add: RtaReader_init_def ETSF_Reader_init_def example_fs_def read_dimvalue_def
      read_value_def example_nc_def example_reader_def example_units_def vector_def)

lemma example_file_init:
  "RtaFile_init example_units example_fs ''out_RTA.nc'' = Inr example_file"
  by (simp add: RtaFile_init_def example_reader_init)
     (simp add: example_reader_def example_file_def read_dimvalue_def read_value_def
      read_value_int_def example_nc_def example_units_def vector_def)

lemma example_reader_of_file: "reader example_file = example_reader"
  by (simp add: example_file_def)

lemma example_file_open: "\<not> is_closed (reader example_file)"
  by (simp add: example_reader_of_file example_open)

lemma example_file_edos_mesh:
  "variables (rootgrp (reader example_file)) ''edos_mesh'' = Some (vector [0, 1 / 2, 1])"
  by (simp add: example_reader_of_file example_edos_mesh)

lemma example_file_mobility:
  "variables (rootgrp (reader example_file)) ''mobility'' =
     Some (tabulate [2, 1, 2, 3, 3, 3, 3] index_code)"
  by (simp add: example_reader_of_file example_mobility)

lemma example_file_transport_mu_e:
  "variables (rootgrp (reader example_file)) ''transport_mu_e'' =
     Some (vector [1 / 4, 1 / 2, 3 / 4])"
  by (simp add: example_reader_of_file example_transport_mu_e)

lemma example_mobility_shape:
  "has_shape [2, 1, 2, 3, 3, 3, 3] (tabulate [2, 1, 2, 3, 3, 3, 3] index_code)"
  by (rule has_shape_tabulate)

section \<open>The mobility slice\<close>

text \<open>
  C1.  On an open reader whose mobility array has the declared shape
  \<open>[nrta, nsppol, 2, ntemp, 3, 3, edos_nw]\<close>, for every index tuple inside the
  bounds and every two-character component label decoded to \<open>(i, j)\<close>,
  \<open>read_mobility\<close> returns the stored mesh and the sub-array reached by the
  indices \<open>irta, spin, eh, itemp, j, i\<close> in this order, that is the slice
  \<open>[irta, spin, eh, itemp, j, i, :]\<close>; slice and mesh both have the length
  of the energy-mesh dimension.
\<close>

theorem read_mobility_slice:
  assumes "\<not> is_closed self"
    and "variables (rootgrp self) ''edos_mesh'' = Some wvals"
    and "variables (rootgrp self) ''mobility'' = Some var"
    and "has_shape [nw] wvals"
    and "has_shape [n_rta, n_sppol, 2, n_temp, 3, 3, nw] var"
    and "s2itup component = Inr (i, j)"
    and "0 \<le> irta" "irta < int n_rta" "0 \<le> spin" "spin < int n_sppol"
      "eh = 0 \<or> eh = 1" "0 \<le> itemp" "itemp < int n_temp"
  shows "read_mobility self eh itemp component spin irta =
           Inr (wvals, foldl nd_child var [nat irta, nat spin, nat eh, nat itemp, j, i]) \<and>
         len (foldl nd_child var [nat irta, nat spin, nat eh, nat itemp, j, i]) = Inr nw \<and>
         len wvals = Inr nw"
  using read_mobility_wf [OF assms(1,2,3,5-13)] has_shape_row(3) [OF assms(4)]
    has_shape_row(3) [of nw "foldl nd_child var [nat irta, nat spin, nat eh, nat itemp, j, i]"]
  by blast

text \<open>
  The scenario of the specification: electrons, temperature index 1,
  component \<open>xx\<close>, spin 0, variant 0 give the stored slice
  \<open>[0, 0, 0, 1, 0, 0, :]\<close>, whose entries are 1000, 1001 and 1002.
\<close>

theorem read_mobility_slice_witness:
  "\<not> is_closed example_reader \<and>
   has_shape [2, 1, 2, 3, 3, 3, 3] (tabulate [2, 1, 2, 3, 3, 3, 3] index_code) \<and>
   s2itup ''xx'' = Inr (0, 0) \<and>
   read_mobility example_reader 0 1 ''xx'' 0 0 =
     Inr (vector [0, 1 / 2, 1], vector [1000, 1001, 1002]) \<and>
   len (vector [1000, 1001, 1002 :: real]) = Inr 3 \<and>
   len (vector [0, 1 / 2, 1 :: real]) = Inr 3"
proof -
  have sh: "has_shape [2, 1, 2, 3, 3, 3, 3] (tabulate [2, 1, 2, 3, 3, 3, 3] index_code)"
    by (rule has_shape_tabulate)
  have rm: "read_mobility example_reader 0 1 ''xx'' 0 0 =
          Inr (vector [0, 1 / 2, 1],
               foldl nd_child (tabulate [2, 1, 2, 3, 3, 3, 3] index_code)
                 [nat 0, nat 0, nat 0, nat 1, 0, 0]) \<and>
        len (foldl nd_child (tabulate [2, 1, 2, 3, 3, 3, 3] index_code)
                 [nat 0, nat 0, nat 0, nat 1, 0, 0]) = Inr 3 \<and>
        len (vector [0, 1 / 2, 1 :: real]) = Inr 3"
    by (rule read_mobility_slice [OF example_open example_edos_mesh example_mobility
          example_mesh_shape sh example_xx]) simp_all
  show ?thesis
  proof (intro conjI)
    show "\<not> is_closed example_reader" by (rule example_open)
    show "has_shape [2, 1, 2, 3, 3, 3, 3] (tabulate [2, 1, 2, 3, 3, 3, 3] index_code)"
      by (rule sh)
    show "s2itup ''xx'' = Inr (0, 0)" by (rule example_xx)
    show "read_mobility example_reader 0 1 ''xx'' 0 0 =
            Inr (vector [0, 1 / 2, 1], vector [1000, 1001, 1002])"
      using rm by (simp only: example_slice)
    show "len (vector [1000, 1001, 1002 :: real]) = Inr 3"
      using rm by (simp only: example_slice)
    show "len (vector [0, 1 / 2, 1 :: real]) = Inr 3"
      using rm by (simp only: example_slice)
  qed
qed

section \<open>The unit of the returned mesh\<close>

text \<open>
  C2.  The specification has the mesh returned with the mobility in eV, the
  stored mesh times \<open>Ha_to_eV\<close>, as \<open>edos_mesh_eV\<close> of the same file is.
  The code returns the stored mesh as it is.  On the example file the stored
  mesh is \<open>[0, 1/2, 1]\<close> Hartree and \<open>read_mobility\<close> returns exactly that,
  while \<open>edos_mesh_eV\<close> holds \<open>[0, 13.605693, 27.211386]\<close>; accordingly
  \<open>get_mobility_mu\<close>, whose \<open>ef\<close> is documented to be in eV, rejects
  13.605693 eV, the middle point of the eV mesh, as out of range.
\<close>

theorem read_mobility_mesh_not_converted:
  "RtaFile_init example_units example_fs ''out_RTA.nc'' = Inr example_file \<and>
   read_mobility (reader example_file) 0 1 ''xx'' 0 0 =
     Inr (vector [0, 1 / 2, 1], vector [1000, 1001, 1002]) \<and>
   edos_mesh_eV example_file = vector [0, 13605693 / 1000000, 27211386 / 1000000] \<and>
   vector [0, 1 / 2, 1] \<noteq> edos_mesh_eV example_file \<and>
   get_mobility_mu example_file 0 1 ''xx'' (Some (13605693 / 1000000)) 0 0 = Inl DomainError"
proof (intro conjI)
  have sh: "has_shape [2, 1, 2, 3, 3, 3, 3] (tabulate [2, 1, 2, 3, 3, 3, 3] index_code)"
    by (rule has_shape_tabulate)
  have rm: "read_mobility example_reader 0 1 ''xx'' 0 0 =
          Inr (vector [0, 1 / 2, 1],
               foldl nd_child (tabulate [2, 1, 2, 3, 3, 3, 3] index_code)
                 [nat 0, nat 0, nat 0, nat 1, 0, 0])"
    by (rule read_mobility_wf(1) [OF example_open example_edos_mesh example_mobility
          sh example_xx]) simp_all
  then show r: "read_mobility (reader example_file) 0 1 ''xx'' 0 0 =
      Inr (vector [0, 1 / 2, 1], vector [1000, 1001, 1002])"
    by (simp only: example_slice example_reader_of_file)
  show "RtaFile_init example_units example_fs ''out_RTA.nc'' = Inr example_file"
    by (rule example_file_init)
  show "edos_mesh_eV example_file = vector [0, 13605693 / 1000000, 27211386 / 1000000]"
    by (simp add: example_file_def)
  show "vector [0, 1 / 2, 1] \<noteq> edos_mesh_eV example_file"
    by (simp add: example_file_def vector_def)
  have i: "interp1d (vector [0, 1 / 2, 1]) (vector [1000, 1001, 1002]) =
             Inr [(0, 1000), (1 / 2, 1001), (1, 1002)]"
    by (simp add: interp1d_def vector_def)
  show "get_mobility_mu example_file 0 1 ''xx'' (Some (13605693 / 1000000)) 0 0 =
          Inl DomainError"
    by (simp add: get_mobility_mu_Some r i interp1d_call_def)
qed

section \<open>Queries outside the mesh\<close>

lemma interp1d_Inr:
  assumes "interp1d x y = Inr f"
  shows "\<exists>xs ys. nd_list1 x = Inr xs \<and> nd_list1 y = Inr ys \<and> length xs = length ys \<and>
           xs \<noteq> [] \<and> f = sort_key fst (zip xs ys)"
  using assms by (auto simp: interp1d_def split: sum.splits if_splits)

text \<open>
  Whatever the file holds: a call of \<open>get_mobility_mu\<close> that returns a value
  had its query point inside the range of the mesh that \<open>read_mobility\<close>
  returned.
\<close>

lemma get_mobility_mu_never_extrapolates:
  assumes "get_mobility_mu self eh itemp component (Some ef) irta spin = Inr v"
  shows "\<exists>emesh mobility xs.
           read_mobility (reader self) eh itemp component spin irta = Inr (emesh, mobility) \<and>
           nd_list1 emesh = Inr xs \<and> xs \<noteq> [] \<and> Min (set xs) \<le> ef \<and> ef \<le> Max (set xs)"
proof -
  obtain emesh mobility f where
    rm: "read_mobility (reader self) eh itemp component spin irta = Inr (emesh, mobility)"
    and i: "interp1d emesh mobility = Inr f"
    and c: "interp1d_call f (Scalar ef) = Inr v"
    using assms by (auto simp: get_mobility_mu_Some split: sum.splits prod.splits)
  obtain xs ys where x: "nd_list1 emesh = Inr xs" and l: "length xs = length ys"
    and ne: "xs \<noteq> []" and f: "f = sort_key fst (zip xs ys)"
    using interp1d_Inr [OF i] by blast
  have "\<not> (ef < Min (set xs) \<or> Max (set xs) < ef)"
    using c interp1d_call_scalar [OF l ne, of ef] by (auto simp: f split: if_splits)
  then have "Min (set xs) \<le> ef \<and> ef \<le> Max (set xs)"
    by (simp only: de_Morgan_disj not_less)
  then show ?thesis using rm x ne by blast
qed

text \<open>
  C3.  For a well-formed open file and every valid index tuple, a query point
  strictly below the least or strictly above the greatest mesh energy makes
  \<open>get_mobility_mu\<close> fail with \<open>DomainError\<close>: no value is returned, nothing
  is extrapolated.  This holds for a potential passed by the caller and for
  the stored potential used when \<open>ef\<close> is omitted.
\<close>

theorem get_mobility_mu_out_of_range:
  assumes "\<not> is_closed (reader self)"
    and "variables (rootgrp (reader self)) ''edos_mesh'' = Some wvals"
    and "variables (rootgrp (reader self)) ''mobility'' = Some var"
    and "has_shape [nw] wvals"
    and "has_shape [n_rta, n_sppol, 2, n_temp, 3, 3, nw] var"
    and "s2itup component = Inr (i, j)"
    and "0 \<le> irta" "irta < int n_rta" "0 \<le> spin" "spin < int n_sppol"
      "eh = 0 \<or> eh = 1" "0 \<le> itemp" "itemp < int n_temp"
    and "0 < nw"
    and "ef < Min (set (nd_elems wvals)) \<or> Max (set (nd_elems wvals)) < ef"
  shows "get_mobility_mu self eh itemp component (Some ef) irta spin = Inl DomainError \<and>
         (\<forall>mu_e. variables (rootgrp (reader self)) ''transport_mu_e'' = Some mu_e \<and>
                 has_shape [n_temp] mu_e \<and> nd_elems mu_e ! nat itemp = ef \<longrightarrow>
            get_mobility_mu self eh itemp component None irta spin = Inl DomainError)"
proof -
  let ?row = "foldl nd_child var [nat irta, nat spin, nat eh, nat itemp, j, i]"
  note rm = read_mobility_wf [OF assms(1,2,3,5-13)]
  note xs = has_shape_row(1,2) [OF assms(4)]
  note ys = has_shape_row(1,2) [OF rm(2)]
  have ne: "nd_elems wvals \<noteq> []" using xs(2) assms(14) by auto
  have "interp1d wvals ?row = Inr (sort_key fst (zip (nd_elems wvals) (nd_elems ?row)))"
    using interp1d_rows [OF assms(4) rm(2) assms(14)] .
  moreover have "interp1d_call (sort_key fst (zip (nd_elems wvals) (nd_elems ?row))) (Scalar ef) =
      Inl DomainError"
    using interp1d_call_scalar [of "nd_elems wvals" "nd_elems ?row" ef] xs(2) ys(2) ne assms(15)
    by simp
  ultimately have a: "get_mobility_mu self eh itemp component (Some ef) irta spin = Inl DomainError"
    using rm(1) by (simp add: get_mobility_mu_Some)
  have "get_mobility_mu self eh itemp component None irta spin = Inl DomainError"
    if "variables (rootgrp (reader self)) ''transport_mu_e'' = Some mu_e"
      "has_shape [n_temp] mu_e" "nd_elems mu_e ! nat itemp = ef" for mu_e
    using get_mobility_mu_None [OF assms(1) that(1,2) assms(12,13)] that(3) a by simp
  then show ?thesis using a by blast
qed

text \<open>
  On the example file the mesh runs from 0 to 1; the query 2 is refused.
\<close>

theorem get_mobility_mu_out_of_range_witness:
  "\<not> is_closed (reader example_file) \<and>
   Max (set (nd_elems (vector [0, 1 / 2, 1 :: real]))) < 2 \<and>
   get_mobility_mu example_file 0 1 ''xx'' (Some 2) 0 0 = Inl DomainError"
proof -
  have "get_mobility_mu example_file 0 1 ''xx'' (Some 2) 0 0 = Inl DomainError"
    by (rule get_mobility_mu_out_of_range [OF example_file_open example_file_edos_mesh
          example_file_mobility example_mesh_shape example_mobility_shape example_xx,
          THEN conjunct1])
       (simp_all add: nd_elems_vector)
  then show ?thesis using example_file_open by (simp add: nd_elems_vector)
qed

section \<open>Queries at the sample points\<close>

text \<open>
  C4.  For a well-formed open file whose mesh energies are pairwise different
  (an ordered mesh is), for every valid index tuple and every mesh point
  \<open>e_k\<close>, \<open>get_mobility_mu\<close> called with the potential \<open>e_k\<close> returns the
  \<open>k\<close>-th value of the slice that \<open>read_mobility\<close> returns for the same
  indices: the interpolant is exact at the sample points.
\<close>

theorem get_mobility_mu_at_sample:
  assumes "\<not> is_closed (reader self)"
    and "variables (rootgrp (reader self)) ''edos_mesh'' = Some wvals"
    and "variables (rootgrp (reader self)) ''mobility'' = Some var"
    and "has_shape [nw] wvals"
    and "has_shape [n_rta, n_sppol, 2, n_temp, 3, 3, nw] var"
    and "s2itup component = Inr (i, j)"
    and "0 \<le> irta" "irta < int n_rta" "0 \<le> spin" "spin < int n_sppol"
      "eh = 0 \<or> eh = 1" "0 \<le> itemp" "itemp < int n_temp"
    and "distinct (nd_elems wvals)"
    and "k < nw"
  shows "read_mobility (reader self) eh itemp component spin irta =
           Inr (wvals, foldl nd_child var [nat irta, nat spin, nat eh, nat itemp, j, i]) \<and>
         get_mobility_mu self eh itemp component (Some (nd_elems wvals ! k)) irta spin =
           Inr (Scalar (nd_elems (foldl nd_child var
                  [nat irta, nat spin, nat eh, nat itemp, j, i]) ! k))"
proof -
  let ?row = "foldl nd_child var [nat irta, nat spin, nat eh, nat itemp, j, i]"
  let ?xs = "nd_elems wvals" and ?ys = "nd_elems ?row"
  let ?f = "sort_key fst (zip ?xs ?ys)"
  note rm = read_mobility_wf [OF assms(1,2,3,5-13)]
  note xs = has_shape_row(1,2) [OF assms(4)]
  note ys = has_shape_row(1,2) [OF rm(2)]
  have len: "length ?xs = length ?ys" and ne: "?xs \<noteq> []" and k: "k < length ?xs"
    using xs(2) ys(2) assms(15) by auto
  have nw: "0 < nw" using assms(15) by simp
  have i1: "interp1d wvals ?row = Inr ?f"
    using interp1d_rows [OF assms(4) rm(2) nw] .
  have mem: "?xs ! k \<in> set ?xs" using k by simp
  then have inside: "\<not> (?xs ! k < Min (set ?xs) \<or> Max (set ?xs) < ?xs ! k)"
    by (simp add: not_less)
  have i2: "interp1d_call ?f (Scalar (?xs ! k)) = Inr (Scalar (linear_interp ?f (?xs ! k)))"
    using interp1d_call_scalar [OF len ne, of "?xs ! k"] inside by simp
  have "(?xs ! k, ?ys ! k) \<in> set (zip ?xs ?ys)"
    using k len by (auto simp: set_zip)
  then have m: "(?xs ! k, ?ys ! k) \<in> set ?f" by simp
  have "distinct (map fst (zip ?xs ?ys))" using len assms(14) by simp
  then have "distinct (zip ?xs ?ys) \<and> inj_on fst (set (zip ?xs ?ys))"
    by (simp only: distinct_map)
  then have "distinct ?f \<and> inj_on fst (set ?f)" by simp
  then have d: "distinct (map fst ?f)" by (simp only: distinct_map)
  have s: "sorted (map fst ?f)" by simp
  have "linear_interp ?f (?xs ! k) = ?ys ! k"
    using linear_interp_at_sample [OF s d m] .
  then show ?thesis using rm(1) i1 i2 by (simp add: get_mobility_mu_Some)
qed

text \<open>
  On the example file the mesh point of index 1 is 1/2 and the slice
  \<open>[0, 0, 0, 1, 0, 0, :]\<close> holds 1001 there.
\<close>

theorem get_mobility_mu_at_sample_witness:
  "distinct (nd_elems (vector [0, 1 / 2, 1 :: real])) \<and>
   nd_elems (vector [0, 1 / 2, 1 :: real]) ! 1 = 1 / 2 \<and>
   get_mobility_mu example_file 0 1 ''xx'' (Some (1 / 2)) 0 0 = Inr (Scalar 1001)"
proof -
  have "get_mobility_mu example_file 0 1 ''xx''
          (Some (nd_elems (vector [0, 1 / 2, 1 :: real]) ! 1)) 0 0 =
        Inr (Scalar (nd_elems (foldl nd_child (tabulate [2, 1, 2, 3, 3, 3, 3] index_code)
               [nat 0, nat 0, nat 0, nat 1, 0, 0]) ! 1))"
    by (rule get_mobility_mu_at_sample [OF example_file_open example_file_edos_mesh
          example_file_mobility example_mesh_shape example_mobility_shape example_xx,
          THEN conjunct2])
       (simp_all add: nd_elems_vector)
  then have "get_mobility_mu example_file 0 1 ''xx''
          (Some (nd_elems (vector [0, 1 / 2, 1 :: real]) ! 1)) 0 0 =
        Inr (Scalar (nd_elems (vector [1000, 1001, 1002 :: real]) ! 1))"
    by (simp only: example_slice)
  then show ?thesis by (simp add: nd_elems_vector)
qed

section \<open>The query point\<close>

text \<open>
  C5.  With \<open>ef\<close> omitted, \<open>get_mobility_mu\<close> behaves as with the stored
  chemical potential of the temperature, element \<open>itemp\<close> of
  \<open>transport_mu_e\<close>, passed as \<open>ef\<close>; with \<open>ef\<close> given it interpolates the
  slice returned by \<open>read_mobility\<close>, over the mesh returned with it, at
  \<open>ef\<close>.
\<close>

theorem get_mobility_mu_query_point:
  assumes "\<not> is_closed (reader self)"
    and "variables (rootgrp (reader self)) ''transport_mu_e'' = Some mu_e"
    and "has_shape [n_temp] mu_e" "0 \<le> itemp" "itemp < int n_temp"
  shows "get_mobility_mu self eh itemp component None irta spin =
           get_mobility_mu self eh itemp component (Some (nd_elems mu_e ! nat itemp)) irta spin \<and>
         get_mobility_mu self eh itemp component (Some ef) irta spin =
           (case read_mobility (reader self) eh itemp component spin irta of
              Inl e \<Rightarrow> Inl e
            | Inr (emesh, mobility) \<Rightarrow>
                (case interp1d emesh mobility of
                   Inl e \<Rightarrow> Inl e
                 | Inr f \<Rightarrow> interp1d_call f (Scalar ef)))"
  using get_mobility_mu_None [OF assms] get_mobility_mu_Some by blast

text \<open>
  On the example file the stored potential at temperature index 2 is 3/4,
  half way between the mesh points 1/2 and 1, and the slice
  \<open>[0, 0, 0, 2, 0, 0, :]\<close> holds 2001 and 2002 there.
\<close>

theorem get_mobility_mu_query_point_witness:
  "nd_elems (vector [1 / 4, 1 / 2, 3 / 4 :: real]) ! nat 2 = 3 / 4 \<and>
   get_mobility_mu example_file 0 2 ''xx'' None 0 0 =
     get_mobility_mu example_file 0 2 ''xx'' (Some (3 / 4)) 0 0 \<and>
   get_mobility_mu example_file 0 2 ''xx'' (Some (3 / 4)) 0 0 = Inr (Scalar (4003 / 2))"
proof -
  have q: "nd_elems (vector [1 / 4, 1 / 2, 3 / 4 :: real]) ! nat 2 = 3 / 4"
    by (simp add: nd_elems_vector)
  have a: "get_mobility_mu example_file 0 2 ''xx'' None 0 0 =
           get_mobility_mu example_file 0 2 ''xx''
             (Some (nd_elems (vector [1 / 4, 1 / 2, 3 / 4 :: real]) ! nat 2)) 0 0"
    by (rule get_mobility_mu_query_point [OF example_file_open example_file_transport_mu_e
          example_mu_e_shape, THEN conjunct1]) simp_all
  have rm: "read_mobility (reader example_file) 0 2 ''xx'' 0 0 =
          Inr (vector [0, 1 / 2, 1],
               foldl nd_child (tabulate [2, 1, 2, 3, 3, 3, 3] index_code)
                 [nat 0, nat 0, nat 0, nat 2, 0, 0])"
    by (rule read_mobility_wf(1) [OF example_file_open example_file_edos_mesh
          example_file_mobility example_mobility_shape example_xx]) simp_all
  have sl: "foldl nd_child (tabulate [2, 1, 2, 3, 3, 3, 3] index_code)
              [nat 0, nat 0, nat 0, nat 2, 0, 0] = vector [2000, 2001, 2002]"
    by (simp add: upt_2 upt_3 vector_def index_code_def)
  have i: "interp1d (vector [0, 1 / 2, 1]) (vector [2000, 2001, 2002]) =
             Inr [(0, 2000), (1 / 2, 2001), (1, 2002)]"
    by (simp add: interp1d_def vector_def)
  have "get_mobility_mu example_file 0 2 ''xx'' (Some (3 / 4)) 0 0 =
          (case read_mobility (reader example_file) 0 2 ''xx'' 0 0 of
             Inl e \<Rightarrow> Inl e
           | Inr (emesh, mobility) \<Rightarrow>
               (case interp1d emesh mobility of
                  Inl e \<Rightarrow> Inl e
                | Inr f \<Rightarrow> interp1d_call f (Scalar (3 / 4))))"
    by (rule get_mobility_mu_query_point [OF example_file_open example_file_transport_mu_e
          example_mu_e_shape, THEN conjunct2]) simp_all
  then have "get_mobility_mu example_file 0 2 ''xx'' (Some (3 / 4)) 0 0 =
          (case interp1d (vector [0, 1 / 2, 1]) (vector [2000, 2001, 2002]) of
             Inl e \<Rightarrow> Inl e
           | Inr f \<Rightarrow> interp1d_call f (Scalar (3 / 4)))"
    by (simp only: rm sl sum.case prod.case)
  then have b: "get_mobility_mu example_file 0 2 ''xx'' (Some (3 / 4)) 0 0 =
      Inr (Scalar (4003 / 2))"
    by (simp add: i interp1d_call_def)
  have a': "get_mobility_mu example_file 0 2 ''xx'' None 0 0 =
            get_mobility_mu example_file 0 2 ''xx'' (Some (3 / 4)) 0 0"
    using a by (simp only: q)
  show ?thesis by (intro conjI) (rule q a' b)+
qed

section \<open>The temperature mesh\<close>

lemma RtaFile_init_reader:
  assumes "RtaFile_init abu fs path = Inr f"
  shows "RtaReader_init abu fs path = Inr (reader f)"
  using assms by (auto simp: RtaFile_init_def split: sum.splits)

lemma RtaReader_init_tmesh:
  assumes "RtaReader_init abu fs path = Inr rd"
  shows "\<exists>file kT. fs path = Some file \<and> variables file ''kTmesh'' = Some kT \<and>
           tmesh rd = map_ndarray (\<lambda>x. x / kb_HaK abu) kT"
  using assms
  by (auto simp: RtaReader_init_def ETSF_Reader_init_def read_dimvalue_def read_value_def
      split: sum.splits option.splits if_splits)

text \<open>
  C6.  For every file object that opening has produced, the temperature mesh
  is the stored array \<open>kTmesh\<close> with every element divided by \<open>kb_HaK\<close>;
  \<open>ntemp\<close> is its length, which is the \<open>ntemp\<close> dimension \<open>n\<close> whenever the
  stored array has the declared shape \<open>[n]\<close>; and \<open>close\<close>, the only
  operation that changes the object, leaves mesh and length as they are.
\<close>

theorem tmesh_roundtrip:
  assumes "RtaFile_init abu fs path = Inr f"
    and "fs path = Some file"
    and "variables file ''kTmesh'' = Some kT"
  shows "RtaFile_tmesh f = map_ndarray (\<lambda>x. x / kb_HaK abu) kT \<and>
         nd_elems (RtaFile_tmesh f) = map (\<lambda>x. x / kb_HaK abu) (nd_elems kT) \<and>
         RtaFile_ntemp f = len kT \<and>
         (\<forall>n. has_shape [n] kT \<longrightarrow> RtaFile_ntemp f = Inr n) \<and>
         RtaFile_tmesh (RtaFile_close f) = RtaFile_tmesh f \<and>
         RtaFile_ntemp (RtaFile_close f) = RtaFile_ntemp f"
proof -
  have t: "RtaFile_tmesh f = map_ndarray (\<lambda>x. x / kb_HaK abu) kT"
    using RtaReader_init_tmesh [OF RtaFile_init_reader [OF assms(1)]] assms(2,3)
    by (auto simp: RtaFile_tmesh_def)
  have c: "RtaFile_tmesh (RtaFile_close f) = RtaFile_tmesh f"
    by (simp add: RtaFile_tmesh_def RtaFile_close_def close_def)
  have n: "RtaFile_ntemp f = len kT" by (simp add: RtaFile_ntemp_def t len_map)
  have "RtaFile_ntemp f = Inr n" if "has_shape [n] kT" for n
    using n has_shape_row(3) [OF that] by simp
  then show ?thesis using t c n by (simp add: nd_elems_map RtaFile_ntemp_def)
qed

text \<open>
  The example file stores \<open>kT\<close> for 100, 200 and 300 K; the mesh read back
  is \<open>[100, 200, 300]\<close> and \<open>ntemp\<close> is 3, before and after \<open>close\<close>.
\<close>

theorem tmesh_roundtrip_witness:
  "RtaFile_init example_units example_fs ''out_RTA.nc'' = Inr example_file \<and>
   RtaFile_tmesh example_file = vector [100, 200, 300] \<and>
   RtaFile_ntemp example_file = Inr 3 \<and>
   RtaFile_tmesh (RtaFile_close example_file) = vector [100, 200, 300] \<and>
   RtaFile_ntemp (RtaFile_close example_file) = Inr 3"
proof -
  have fs: "example_fs ''out_RTA.nc'' = Some example_nc"
    by (simp add: example_fs_def)
  have kT: "variables example_nc ''kTmesh'' =
      Some (vector [100 * kb_HaK example_units, 200 * kb_HaK example_units,
                    300 * kb_HaK example_units])"
    by (simp add: example_nc_def)
  note t = tmesh_roundtrip [OF example_file_init fs kT]
  have m: "map_ndarray (\<lambda>x. x / kb_HaK example_units)
             (vector [100 * kb_HaK example_units, 200 * kb_HaK example_units,
                      300 * kb_HaK example_units]) = vector [100, 200, 300]"
    by (simp add: vector_def example_units_def)
  have l: "len (vector [100 * kb_HaK example_units, 200 * kb_HaK example_units,
                        300 * kb_HaK example_units]) = Inr 3"
    by (simp add: vector_def)
  show ?thesis using t example_file_init by (simp add: m l)
qed

section \<open>The convergence collection\<close>

lemma mobility_conv_loop_all:
  assumes "list_all2 (\<lambda>ncfile p. mobility_conv_entry ncfile ij eh itemp spin irta = Inr p)
             abifiles res"
  shows "mobility_conv_loop abifiles ij eh itemp spin irta = Inr res"
  using assms by (induction rule: list_all2_induct) simp_all

lemma mobility_conv_loop_only:
  assumes "mobility_conv_loop abifiles ij eh itemp spin irta = Inr res"
  shows "list_all2 (\<lambda>ncfile p. mobility_conv_entry ncfile ij eh itemp spin irta = Inr p)
           abifiles res"
  using assms
  by (induction abifiles arbitrary: res) (auto split: sum.splits)

text \<open>
  A list has one stable ascending rearrangement only, so any stable sort,
  \<open>list.sort\<close> included, computes what \<open>sort_key\<close> computes.
\<close>

lemma stable_sort_unique:
  assumes "mset ys = mset xs"
    and "sorted (map f ys)"
    and "\<And>k. filter (\<lambda>p. f p = k) ys = filter (\<lambda>p. f p = k) xs"
  shows "ys = sort_key f xs"
proof -
  have "filter (\<lambda>x. f k = f x) ys = filter (\<lambda>x. f k = f x) xs" for k
    using assms(3) [of "f k"] by (simp add: eq_commute)
  then show ?thesis
    using properties_for_sort_key [OF assms(1) _ assms(2)] by simp
qed

text \<open>
  C7.  When the component label is valid and the two reads succeed on every
  member, the collection holds one pair per member, each the accessor applied
  to that member (list \<open>entries\<close>, in the order of the members), arranged in
  ascending order of the key; the pairs of equal key keep the order of their
  members.
\<close>

theorem plot_mobility_conv_sorted_stable:
  assumes "s2itup component = Inr ij"
    and "list_all2 (\<lambda>ncfile p. mobility_conv_entry ncfile ij eh itemp spin 0 = Inr p)
           abifiles entries"
  shows "\<exists>res. plot_mobility_conv_res abifiles eh component itemp spin = Inr res \<and>
           length res = length abifiles \<and>
           mset res = mset entries \<and>
           sorted (map fst res) \<and>
           (\<forall>k. filter (\<lambda>p. fst p = k) res = filter (\<lambda>p. fst p = k) entries)"
proof -
  have l: "mobility_conv_loop abifiles ij eh itemp spin 0 = Inr entries"
    using assms(2) by (rule mobility_conv_loop_all)
  have r: "plot_mobility_conv_res abifiles eh component itemp spin = Inr (sort_key fst entries)"
    by (simp add: plot_mobility_conv_res_def assms(1) l)
  have n: "length (sort_key fst entries) = length abifiles"
    using assms(2) by (simp add: list_all2_lengthD)
  have st: "filter (\<lambda>p. fst p = k) (sort_key fst entries) = filter (\<lambda>p. fst p = k) entries"
    for k by (rule sort_key_stable)
  show ?thesis using r n st by simp
qed

text \<open>
  Three members with grid parameters 8, 4 and 8: the member with 4 comes
  first, the two members with 8 follow in their input order.
\<close>

lemma convergence_entry:
  "mobility_conv_entry (convergence_file k c) (0, 1) 1 2 0 0 = Inr (k, Scalar (2101 + c))"
proof -
  have "nd_index (tabulate [2, 1, 3, 3, 3, 2] (\<lambda>ks. index_code ks + c)) [0, 0, 2, 1, 0, 1] =
          Inr (Scalar (2101 + c))"
    by (simp add: upt_2 upt_3 index_code_def Let_def)
  then show ?thesis
    by (simp add: mobility_conv_entry_def convergence_file_def example_file_def
        example_reader_def example_nc_def read_value_int_def read_variable_def vector_def
        Let_def)
qed

theorem plot_mobility_conv_sorted_stable_witness:
  "s2itup ''xy'' = Inr (0, 1) \<and>
   plot_mobility_conv_res
     [convergence_file 8 0, convergence_file 4 (1 / 2), convergence_file 8 (1 / 4)]
     1 ''xy'' 2 0 =
   Inr [(4, Scalar (4203 / 2)), (8, Scalar 2101), (8, Scalar (8405 / 4))]"
proof -
  have xy: "s2itup ''xy'' = Inr (0, 1)" by (simp add: s2itup_def)
  have e: "list_all2 (\<lambda>ncfile p. mobility_conv_entry ncfile (0, 1) 1 2 0 0 = Inr p)
             [convergence_file 8 0, convergence_file 4 (1 / 2), convergence_file 8 (1 / 4)]
             [(8, Scalar (2101 + 0)), (4, Scalar (2101 + 1 / 2)), (8, Scalar (2101 + 1 / 4))]"
    using convergence_entry [of 8 0] convergence_entry [of 4 "1 / 2"]
      convergence_entry [of 8 "1 / 4"] by simp
  obtain res where r: "plot_mobility_conv_res
        [convergence_file 8 0, convergence_file 4 (1 / 2), convergence_file 8 (1 / 4)]
        1 ''xy'' 2 0 = Inr res"
    and m: "mset res =
        mset [(8 :: int, Scalar (2101 + 0 :: real)), (4, Scalar (2101 + 1 / 2)),
              (8, Scalar (2101 + 1 / 4))]"
    using plot_mobility_conv_sorted_stable [OF xy e] by blast
  have "plot_mobility_conv_res
        [convergence_file 8 0, convergence_file 4 (1 / 2), convergence_file 8 (1 / 4)]
        1 ''xy'' 2 0 =
      Inr [(4, Scalar (4203 / 2)), (8, Scalar 2101), (8, Scalar (8405 / 4))]"
    using convergence_entry [of 8 0] convergence_entry [of 4 "1 / 2"]
      convergence_entry [of 8 "1 / 4"]
    by (simp add: plot_mobility_conv_res_def xy)
  then show ?thesis using xy r by simp
qed

section \<open>The closed file\<close>

text \<open>
  C8, as the specification states it, fails: \<open>tmesh\<close> and \<open>ntemp\<close> are
  attributes computed when the file is opened, and reading them after
  \<open>close()\<close> succeeds.  On the example file the closed object still answers
  3 temperatures, 100, 200 and 300 K.
\<close>

theorem closed_file_still_answers:
  "RtaFile_init example_units example_fs ''out_RTA.nc'' = Inr example_file \<and>
   is_closed (reader (RtaFile_close example_file)) \<and>
   RtaFile_ntemp (RtaFile_close example_file) = Inr 3 \<and>
   RtaFile_tmesh (RtaFile_close example_file) = vector [100, 200, 300]"
  by (simp add: example_file_init)
     (simp add: RtaFile_close_def close_def RtaFile_ntemp_def RtaFile_tmesh_def
      example_file_def example_reader_def vector_def)

text \<open>
  C8, amended.  A file object has two states, open and closed; \<open>close()\<close>
  leads to the closed state and closing again changes nothing.  On a closed
  object every read that goes to the file fails: the reads of dimensions and
  arrays with \<open>ClosedError\<close>, and \<open>read_mobility\<close> and \<open>get_mobility_mu\<close>
  with \<open>ClosedError\<close> too, unless the component label is invalid, which is
  reported first.  The values copied into the object when it was opened
  (\<open>tmesh\<close>, \<open>ntemp\<close>, \<open>nrta\<close>, \<open>edos_mesh_eV\<close>) stay readable and unchanged.
\<close>

theorem closed_reads_fail:
  "is_closed (reader (RtaFile_close f)) \<and>
   RtaFile_close (RtaFile_close f) = RtaFile_close f \<and>
   read_dimvalue (reader (RtaFile_close f)) name = Inl ClosedError \<and>
   read_value (reader (RtaFile_close f)) name = Inl ClosedError \<and>
   read_value_int (reader (RtaFile_close f)) name = Inl ClosedError \<and>
   read_variable (reader (RtaFile_close f)) name = Inl ClosedError \<and>
   read_mobility (reader (RtaFile_close f)) eh itemp component spin irta =
     (case s2itup component of Inl e \<Rightarrow> Inl e | Inr ij \<Rightarrow> Inl ClosedError) \<and>
   get_mobility_mu (RtaFile_close f) eh itemp component None irta spin = Inl ClosedError \<and>
   get_mobility_mu (RtaFile_close f) eh itemp component (Some ef) irta spin =
     (case s2itup component of Inl e \<Rightarrow> Inl e | Inr ij \<Rightarrow> Inl ClosedError) \<and>
   RtaFile_tmesh (RtaFile_close f) = RtaFile_tmesh f \<and>
   RtaFile_ntemp (RtaFile_close f) = RtaFile_ntemp f \<and>
   nrta (RtaFile_close f) = nrta f \<and>
   edos_mesh_eV (RtaFile_close f) = edos_mesh_eV f"
  by (simp add: RtaFile_close_def close_def read_dimvalue_def read_value_def read_value_int_def
      read_variable_def read_mobility_def get_mobility_mu_def RtaFile_tmesh_def RtaFile_ntemp_def
      split: sum.splits prod.splits)

theorem closed_reads_fail_witness:
  "is_closed (reader (RtaFile_close example_file)) \<and>
   read_dimvalue (reader (RtaFile_close example_file)) ''nrta'' = Inl ClosedError \<and>
   read_value (reader (RtaFile_close example_file)) ''edos_mesh'' = Inl ClosedError \<and>
   read_variable (reader (RtaFile_close example_file)) ''mobility'' = Inl ClosedError \<and>
   read_mobility (reader (RtaFile_close example_file)) 0 1 ''xx'' 0 0 = Inl ClosedError \<and>
   read_mobility (reader (RtaFile_close example_file)) 0 1 ''xw'' 0 0 = Inl ValueError \<and>
   get_mobility_mu (RtaFile_close example_file) 0 1 ''xx'' None 0 0 = Inl ClosedError \<and>
   get_mobility_mu (RtaFile_close example_file) 0 1 ''xx'' (Some (1 / 2)) 0 0 = Inl ClosedError \<and>
   nrta (RtaFile_close example_file) = 2"
  using closed_reads_fail [of example_file "''nrta''" 0 1 "''xx''" 0 0 "1 / 2"]
    closed_reads_fail [of example_file "''edos_mesh''" 0 1 "''xw''" 0 0 "1 / 2"]
    closed_reads_fail [of example_file "''mobility''" 0 1 "''xx''" 0 0 "1 / 2"]
  by (simp add: s2itup_def example_file_def)

section \<open>The variable database\<close>

lemma get_abinit_variables_cached:
  "VARS_DATABASE m = Some db \<Longrightarrow> get_abinit_variables yml m = (Inr db, m)"
  by (simp add: get_abinit_variables_def)

lemma get_abinit_variables_success:
  assumes "get_abinit_variables yml m = (Inr db, m')"
  shows "VARS_DATABASE m' = Some db"
  using assms
  by (auto simp: get_abinit_variables_def VariableDatabase_init_def
      split: option.splits sum.splits prod.splits)

lemma get_abinit_variables_calls_cached:
  "VARS_DATABASE m = Some db \<Longrightarrow>
   get_abinit_variables_calls ymls m = (replicate (length ymls) (Inr db), m)"
  by (induction ymls) (simp_all add: get_abinit_variables_cached)

text \<open>
  C9.  The getter is a lazily initialised singleton.  On a freshly imported
  module a first call that returns constructs exactly one \<open>VariableDatabase\<close>;
  and after any call that returned an object, every later call, whatever the
  YAML file holds by then, returns that very object (same identity, same
  contents), allocates nothing and leaves the module state as it is.
\<close>

theorem get_abinit_variables_singleton:
  assumes "get_abinit_variables yml m = (Inr db, m')"
  shows "get_abinit_variables_calls ymls m' = (replicate (length ymls) (Inr db), m') \<and>
         get_abinit_variables yml' m' = (Inr db, m') \<and>
         (m = lessons_import \<longrightarrow> allocated m' = 1 \<and> obj_id db = 0)"
proof -
  have c: "VARS_DATABASE m' = Some db"
    using assms by (rule get_abinit_variables_success)
  have "get_abinit_variables_calls ymls m' = (replicate (length ymls) (Inr db), m')"
    using c by (rule get_abinit_variables_calls_cached)
  moreover have "get_abinit_variables yml' m' = (Inr db, m')"
    using c by (rule get_abinit_variables_cached)
  moreover have "allocated m' = 1 \<and> obj_id db = 0" if "m = lessons_import"
    using assms that
    by (auto simp: get_abinit_variables_def VariableDatabase_init_def lessons_import_def
        split: sum.splits)
  ultimately show ?thesis by blast
qed

text \<open>
  The first call reads a one-variable file; the later calls find the file
  unreadable, then empty, and still return the object built first.
\<close>

lemma example_first_call:
  "get_abinit_variables (Inr [example_var]) lessons_import = (Inr example_db, example_module)"
  by (simp add: get_abinit_variables_def VariableDatabase_init_def lessons_import_def
      example_db_def example_module_def)

theorem get_abinit_variables_singleton_witness:
  "get_abinit_variables (Inr [example_var]) lessons_import = (Inr example_db, example_module) \<and>
   get_abinit_variables_calls [Inl IOError, Inr []] example_module =
     ([Inr example_db, Inr example_db], example_module) \<and>
   get_abinit_variables (Inr []) example_module = (Inr example_db, example_module) \<and>
   allocated example_module = 1 \<and> obj_id example_db = 0"
  using get_abinit_variables_singleton [OF example_first_call,
      of "[Inl IOError, Inr []]" "Inr []"] example_first_call
  by simp

section \<open>The CPU bounds of a benchmark\<close>

text \<open>
  C10.  For all options and all integers \<open>mpi_procs\<close> and \<open>omp_threads\<close> (in
  particular all positive ones), \<open>accept_mpi_omp\<close> returns \<open>True\<close> if and only
  if \<open>mpi_procs * omp_threads\<close> is at least \<open>min_ncpus\<close> and, when \<open>max_ncpus\<close>
  is not \<open>None\<close>, at most \<open>max_ncpus\<close>.
\<close>

theorem accept_mpi_omp_iff:
  "snd (accept_mpi_omp opts mpi_procs omp_threads) =
     (min_ncpus opts \<le> mpi_procs * omp_threads \<and>
      (case max_ncpus opts of None \<Rightarrow> True
       | Some mx \<Rightarrow> mpi_procs * omp_threads \<le> mx))"
  by (cases "max_ncpus opts") (auto simp: accept_mpi_omp_def Let_def)

text \<open>
  With the defaults, 32 CPUs are accepted and 256 are not; with
  \<open>min_ncpus = 8\<close>, 4 CPUs are not.
\<close>

theorem accept_mpi_omp_iff_witness:
  "snd (accept_mpi_omp default_options 4 8) \<and>
   \<not> snd (accept_mpi_omp default_options 16 16) \<and>
   \<not> snd (accept_mpi_omp (default_options\<lparr> min_ncpus := 8 \<rparr>) 2 2)"
  using accept_mpi_omp_iff [of default_options 4 8]
    accept_mpi_omp_iff [of default_options 16 16]
    accept_mpi_omp_iff [of "default_options\<lparr> min_ncpus := 8 \<rparr>" 2 2]
  by (simp add: default_options_def)

end
